theory Spec2Isabelle
  imports Complex_Main "HOL-Library.Monad_Syntax"
begin

section \<open>The values the handlers see\<close>

text \<open>
  \<^verbatim>\<open>server.js\<close> is six Express handlers. Each one reads its parameters, asks one
  upstream service for a JSON document with \<^verbatim>\<open>axios.get\<close>, picks fields out of the
  answer and sends a new JSON object, or a fixed text with status 500 when anything in its
  \<^verbatim>\<open>try\<close> block throws. The answer of the upstream service is not checked against any
  schema, so the model keeps it untyped: a value of JavaScript as \<^verbatim>\<open>JSON.parse\<close> builds
  it, together with \<^verbatim>\<open>undefined\<close>, which reading a missing property gives.

  A number is a double. A finite double is kept as the rational it denotes (the two zeros
  are one value: no operation of the handlers tells them apart). A string is the list of
  its code units; the model has the code units below 256, which covers every literal of
  \<^verbatim>\<open>server.js\<close> (the degree sign is code unit 0xB0, the superscript two 0xB2). An
  object is the list of its own properties in the order \<^verbatim>\<open>Object.values\<close> walks them,
  each key once.
\<close>

datatype number = NaN | PosInf | NegInf | Fin rat

datatype jsval =
    JUndefined
  | JNull
  | JBool bool
  | JNum number
  | JStr string
  | JArr "jsval list"
  | JObj "(string \<times> jsval) list"

text \<open>
  What the JavaScript engine, the locale and the process environment decide is a
  parameter of the model: the two keys the data routes read from \<^verbatim>\<open>process.env\<close>
  (an absent key is \<^verbatim>\<open>undefined\<close>), the decimal digits \<^verbatim>\<open>Number::toString\<close>
  prints for a positive finite double (the language standard leaves the last digit open), what
  \<^verbatim>\<open>Number.prototype.toLocaleString\<close> prints, the separator
  \<^verbatim>\<open>Array.prototype.toLocaleString\<close> puts between elements, the two \<^verbatim>\<open>Date\<close>
  formats of \<^verbatim>\<open>new Date(n).toLocaleDateString()\<close> and
  \<^verbatim>\<open>new Date(n).toLocaleTimeString()\<close>, and what stands for the capitals of the
  two small letters whose capital is a code unit above 255 (see the letter case below).
\<close>

record env =
  apiKey :: "string option"
  currencyConverterApiKey :: "string option"
  shortestDecimal :: "rat \<Rightarrow> string"
  numberLocale :: "number \<Rightarrow> string"
  listSeparator :: string
  localeDate :: "number \<Rightarrow> string"
  localeTime :: "number \<Rightarrow> string"
  capitalBeyond :: "char \<Rightarrow> string"

subsection \<open>Doubles\<close>

definition pow2 :: "int \<Rightarrow> rat" where
  "pow2 e = (if 0 \<le> e then 2 ^ nat e else 1 / 2 ^ nat (- e))"

definition pow10 :: "int \<Rightarrow> rat" where
  "pow10 e = (if 0 \<le> e then 10 ^ nat e else 1 / 10 ^ nat (- e))"

fun bit_length :: "nat \<Rightarrow> nat" where
  "bit_length n = (if n = 0 then 0 else Suc (bit_length (n div 2)))"

text \<open>The binary exponent of a positive rational \<open>x\<close>: the \<open>e\<close> with \<open>2^e \<le> x < 2^(e+1)\<close>.\<close>

definition exponent_of :: "rat \<Rightarrow> int" where
  "exponent_of x =
     (if 1 \<le> x then int (bit_length (nat \<lfloor>x\<rfloor>)) - 1
      else - int (bit_length (nat (\<lceil>1 / x\<rceil> - 1))))"

definition round_half_even :: "rat \<Rightarrow> int" where
  "round_half_even y =
     (let f = \<lfloor>y\<rfloor>; r = y - of_int f
      in if r < 1 / 2 then f
         else if 1 / 2 < r then f + 1
         else if even f then f else f + 1)"

text \<open>
  The double nearest to a rational, ties to the even significand: 53 bits of significand,
  exponents from \<open>-1022\<close> (below it the spacing stays \<open>2^-1074\<close>) to \<open>1023\<close>, and an
  infinity from \<open>2^1024\<close> on.
\<close>

definition to_double :: "rat \<Rightarrow> number" where
  "to_double x =
     (if x = 0 then Fin 0
      else
        let a = \<bar>x\<bar>;
            e = max (exponent_of a) (- 1022);
            ulp = pow2 (e - 52);
            v = of_int (round_half_even (a / ulp)) * ulp
        in if pow2 1024 \<le> v then (if x < 0 then NegInf else PosInf)
           else Fin (if x < 0 then - v else v))"

fun is_negative :: "number \<Rightarrow> bool" where
  "is_negative NegInf = True"
| "is_negative (Fin a) = (a < 0)"
| "is_negative _ = False"

text \<open>The operator \<^verbatim>\<open>*\<close> on two numbers.\<close>

fun js_mul :: "number \<Rightarrow> number \<Rightarrow> number" where
  "js_mul (Fin a) (Fin b) = to_double (a * b)"
| "js_mul x y =
     (if x = NaN \<or> y = NaN \<or> x = Fin 0 \<or> y = Fin 0 then NaN
      else if is_negative x = is_negative y then PosInf else NegInf)"

fun js_neg :: "number \<Rightarrow> number" where
  "js_neg NaN = NaN"
| "js_neg PosInf = NegInf"
| "js_neg NegInf = PosInf"
| "js_neg (Fin a) = Fin (- a)"

subsection \<open>Numbers to strings\<close>

definition digit_char :: "nat \<Rightarrow> char" where
  "digit_char d = char_of (48 + d)"

fun digits :: "nat \<Rightarrow> string" where
  "digits n = (if n < 10 then [digit_char n] else digits (n div 10) @ [digit_char (n mod 10)])"

text \<open>\<^verbatim>\<open>Number::toString\<close>, which a template literal applies to a number.\<close>

definition number_to_string :: "env \<Rightarrow> number \<Rightarrow> string" where
  "number_to_string E x =
     (case x of
        NaN \<Rightarrow> ''NaN''
      | PosInf \<Rightarrow> ''Infinity''
      | NegInf \<Rightarrow> ''-Infinity''
      | Fin q \<Rightarrow>
          if q = 0 then ''0''
          else if q < 0 then ''-'' @ shortestDecimal E (- q)
          else shortestDecimal E q)"

text \<open>
  \<^verbatim>\<open>x.toFixed(2)\<close>: a value that is not finite prints as \<^verbatim>\<open>Number::toString\<close> does,
  and so does one of magnitude \<open>10^21\<close> or more; any other is rounded to the nearest
  hundredth, the larger one at a tie of the magnitude, and printed with the point before
  the last two digits, zeros padded in front when there are fewer than three.
\<close>

definition toFixed2 :: "env \<Rightarrow> number \<Rightarrow> string" where
  "toFixed2 E x =
     (case x of
        Fin q \<Rightarrow>
          (let s = (if q < 0 then ''-'' else ''''); a = \<bar>q\<bar>
           in if 10 ^ 21 \<le> a then s @ number_to_string E (Fin a)
              else
                let n = nat \<lfloor>a * 100 + 1 / 2\<rfloor>;
                    m = digits n;
                    m = (if length m \<le> 2 then replicate (3 - length m) (CHR ''0'') @ m else m);
                    k = length m
                in s @ take (k - 2) m @ ''.'' @ drop (k - 2) m)
      | _ \<Rightarrow> number_to_string E x)"

subsection \<open>Strings to numbers\<close>

text \<open>
  \<^verbatim>\<open>StringToNumber\<close>: white space is trimmed, the empty string is zero, a decimal
  literal may carry a sign, a fraction and an exponent, a literal with the prefix
  \<^verbatim>\<open>0x\<close>, \<^verbatim>\<open>0o\<close> or \<^verbatim>\<open>0b\<close> carries neither, and anything else is \<^verbatim>\<open>NaN\<close>. The
  value is rounded to the nearest double.
\<close>

definition is_space :: "char \<Rightarrow> bool" where
  "is_space c = (of_char c \<in> {9, 10, 11, 12, 13, 32, 160 :: nat})"

definition trim :: "string \<Rightarrow> string" where
  "trim s = rev (dropWhile is_space (rev (dropWhile is_space s)))"

definition is_digit :: "char \<Rightarrow> bool" where
  "is_digit c = (48 \<le> (of_char c :: nat) \<and> (of_char c :: nat) \<le> 57)"

definition radix_digit :: "nat \<Rightarrow> char \<Rightarrow> nat option" where
  "radix_digit b c =
     (let n = of_char c;
          v = (if 48 \<le> n \<and> n \<le> 57 then n - 48
               else if 97 \<le> n \<and> n \<le> 102 then n - 87
               else if 65 \<le> n \<and> n \<le> 70 then n - 55
               else b)
      in if v < b then Some v else None)"

fun radix_value :: "nat \<Rightarrow> nat \<Rightarrow> string \<Rightarrow> nat option" where
  "radix_value b acc [] = Some acc"
| "radix_value b acc (c # cs) =
     (case radix_digit b c of
        None \<Rightarrow> None
      | Some d \<Rightarrow> radix_value b (b * acc + d) cs)"

definition decimal_value :: "string \<Rightarrow> nat" where
  "decimal_value ds = (case radix_value 10 0 ds of Some n \<Rightarrow> n | None \<Rightarrow> 0)"

definition str_exponent :: "string \<Rightarrow> int option" where
  "str_exponent s =
     (case s of
        [] \<Rightarrow> Some 0
      | c # r \<Rightarrow>
          if c = CHR ''e'' \<or> c = CHR ''E'' then
            (let (neg, ds) =
               (case r of
                  [] \<Rightarrow> (False, [])
                | d # r' \<Rightarrow>
                    if d = CHR ''-'' then (True, r')
                    else if d = CHR ''+'' then (False, r')
                    else (False, r))
             in if ds \<noteq> [] \<and> list_all is_digit ds
                then Some (if neg then - int (decimal_value ds) else int (decimal_value ds))
                else None)
          else None)"

definition str_unsigned_decimal :: "string \<Rightarrow> number option" where
  "str_unsigned_decimal s =
     (if s = ''Infinity'' then Some PosInf
      else
        let ip = takeWhile is_digit s;
            r1 = dropWhile is_digit s;
            (fp, r2) =
              (case r1 of
                 [] \<Rightarrow> ([], [])
               | c # r \<Rightarrow>
                   if c = CHR ''.'' then (takeWhile is_digit r, dropWhile is_digit r)
                   else ([], r1))
        in if ip = [] \<and> fp = [] then None
           else
             (case str_exponent r2 of
                None \<Rightarrow> None
              | Some e \<Rightarrow>
                  Some (to_double (of_nat (decimal_value (ip @ fp)) * pow10 (e - int (length fp))))))"

definition str_decimal :: "string \<Rightarrow> number option" where
  "str_decimal s =
     (case s of
        [] \<Rightarrow> None
      | c # r \<Rightarrow>
          if c = CHR ''+'' then str_unsigned_decimal r
          else if c = CHR ''-'' then map_option js_neg (str_unsigned_decimal r)
          else str_unsigned_decimal s)"

definition str_non_decimal :: "string \<Rightarrow> number option" where
  "str_non_decimal s =
     (case s of
        z # p # ds \<Rightarrow>
          (let b = (if p = CHR ''x'' \<or> p = CHR ''X'' then 16
                    else if p = CHR ''o'' \<or> p = CHR ''O'' then 8
                    else if p = CHR ''b'' \<or> p = CHR ''B'' then 2
                    else 0 :: nat)
           in if z = CHR ''0'' \<and> b \<noteq> 0 \<and> ds \<noteq> []
              then map_option (\<lambda>n. to_double (of_nat n)) (radix_value b 0 ds)
              else None)
      | _ \<Rightarrow> None)"

definition string_to_number :: "string \<Rightarrow> number" where
  "string_to_number s =
     (let t = trim s
      in if t = [] then Fin 0
         else
           (case str_non_decimal t of
              Some n \<Rightarrow> n
            | None \<Rightarrow> (case str_decimal t of Some n \<Rightarrow> n | None \<Rightarrow> NaN)))"

subsection \<open>Reading values\<close>

text \<open>
  Truthiness, as the conditional operator and \<^verbatim>\<open>!\<close> test it.
\<close>

fun truthy :: "jsval \<Rightarrow> bool" where
  "truthy JUndefined = False"
| "truthy JNull = False"
| "truthy (JBool b) = b"
| "truthy (JNum n) = (n \<noteq> NaN \<and> n \<noteq> Fin 0)"
| "truthy (JStr s) = (s \<noteq> [])"
| "truthy (JArr xs) = True"
| "truthy (JObj ps) = True"

text \<open>
  Reading a property \<^verbatim>\<open>v.k\<close>. On \<^verbatim>\<open>undefined\<close> and \<^verbatim>\<open>null\<close> it throws a
  \<^verbatim>\<open>TypeError\<close>, which is \<open>None\<close> here and in every function below: the handlers
  catch whatever is thrown in one \<^verbatim>\<open>catch\<close> block and never look at it. On an object
  it gives the own property, or \<^verbatim>\<open>undefined\<close>. The names the handlers read as data
  (\<^verbatim>\<open>weather\<close>, \<^verbatim>\<open>main\<close>, \<^verbatim>\<open>name\<close>, \<^verbatim>\<open>region\<close>, ...) are no property of a string,
  an array, a number or a boolean and none is inherited by an object, so there the value
  is \<^verbatim>\<open>undefined\<close>.
\<close>

fun get :: "jsval \<Rightarrow> string \<Rightarrow> jsval option" where
  "get JUndefined k = None"
| "get JNull k = None"
| "get (JObj ps) k = Some (case map_of ps k of Some v \<Rightarrow> v | None \<Rightarrow> JUndefined)"
| "get v k = Some JUndefined"

text \<open>Reading the element \<^verbatim>\<open>v[0]\<close>.\<close>

fun index0 :: "jsval \<Rightarrow> jsval option" where
  "index0 JUndefined = None"
| "index0 JNull = None"
| "index0 (JArr xs) = Some (case xs of [] \<Rightarrow> JUndefined | x # _ \<Rightarrow> x)"
| "index0 (JStr s) = Some (case s of [] \<Rightarrow> JUndefined | c # _ \<Rightarrow> JStr [c])"
| "index0 (JObj ps) = Some (case map_of ps ''0'' of Some v \<Rightarrow> v | None \<Rightarrow> JUndefined)"
| "index0 v = Some JUndefined"

text \<open>
  \<^verbatim>\<open>ToString\<close>, which a template literal applies to each value it embeds, and
  \<^verbatim>\<open>Array.prototype.join\<close>. An array prints as its elements joined by a comma, where
  \<^verbatim>\<open>undefined\<close> and \<^verbatim>\<open>null\<close> elements print as nothing. A plain object prints as
  \<^verbatim>\<open>[object Object]\<close>, unless it has an own property \<^verbatim>\<open>toString\<close>: a value that
  came out of JSON is no function, and the conversion throws.
\<close>

fun to_string :: "env \<Rightarrow> jsval \<Rightarrow> string option"
  and join :: "env \<Rightarrow> string \<Rightarrow> jsval list \<Rightarrow> string option" where
  "to_string E JUndefined = Some ''undefined''"
| "to_string E JNull = Some ''null''"
| "to_string E (JBool b) = Some (if b then ''true'' else ''false'')"
| "to_string E (JNum n) = Some (number_to_string E n)"
| "to_string E (JStr s) = Some s"
| "to_string E (JArr xs) = join E '','' xs"
| "to_string E (JObj ps) =
     (if map_of ps ''toString'' = None then Some ''[object Object]'' else None)"
| "join E sep [] = Some []"
| "join E sep (x # xs) = do {
     s \<leftarrow> (if x = JUndefined \<or> x = JNull then Some [] else to_string E x);
     r \<leftarrow> join E sep xs;
     Some (if xs = [] then s else s @ sep @ r)
   }"

text \<open>
  \<^verbatim>\<open>ToNumber\<close>, which \<^verbatim>\<open>*\<close> applies to both operands. An array or an object is
  first turned into a string.
\<close>

fun to_number :: "env \<Rightarrow> jsval \<Rightarrow> number option" where
  "to_number E JUndefined = Some NaN"
| "to_number E JNull = Some (Fin 0)"
| "to_number E (JBool b) = Some (Fin (if b then 1 else 0))"
| "to_number E (JNum n) = Some n"
| "to_number E (JStr s) = Some (string_to_number s)"
| "to_number E v = map_option string_to_number (to_string E v)"

text \<open>
  The method call \<^verbatim>\<open>v.toLocaleString()\<close>. There is no such method on
  \<^verbatim>\<open>undefined\<close> and \<^verbatim>\<open>null\<close>; a number prints as the locale has it; a string and a
  boolean print as themselves; an array joins what its elements print; a plain object
  prints as \<^verbatim>\<open>[object Object]\<close>, and throws when an own property shadows
  \<^verbatim>\<open>toLocaleString\<close> or the \<^verbatim>\<open>toString\<close> it calls.
\<close>

fun toLocaleString :: "env \<Rightarrow> jsval \<Rightarrow> string option"
  and joinLocale :: "env \<Rightarrow> jsval list \<Rightarrow> string option" where
  "toLocaleString E JUndefined = None"
| "toLocaleString E JNull = None"
| "toLocaleString E (JBool b) = Some (if b then ''true'' else ''false'')"
| "toLocaleString E (JNum n) = Some (numberLocale E n)"
| "toLocaleString E (JStr s) = Some s"
| "toLocaleString E (JArr xs) = joinLocale E xs"
| "toLocaleString E (JObj ps) =
     (if map_of ps ''toLocaleString'' = None \<and> map_of ps ''toString'' = None
      then Some ''[object Object]'' else None)"
| "joinLocale E [] = Some []"
| "joinLocale E (x # xs) = do {
     s \<leftarrow> (if x = JUndefined \<or> x = JNull then Some [] else toLocaleString E x);
     r \<leftarrow> joinLocale E xs;
     Some (if xs = [] then s else s @ listSeparator E @ r)
   }"

text \<open>
  \<^verbatim>\<open>Object.values(v)\<close> for a truthy \<open>v\<close>: the own property values of an object, the
  elements of an array, the code units of a string, nothing for a number or \<^verbatim>\<open>true\<close>.
\<close>

fun object_values :: "jsval \<Rightarrow> jsval list option" where
  "object_values JUndefined = None"
| "object_values JNull = None"
| "object_values (JObj ps) = Some (map snd ps)"
| "object_values (JArr xs) = Some xs"
| "object_values (JStr s) = Some (map (\<lambda>c. JStr [c]) s)"
| "object_values v = Some []"

text \<open>
  A callback run over an array by \<^verbatim>\<open>map\<close> or \<^verbatim>\<open>filter\<close> may throw, which ends the
  whole call.
\<close>

fun map_opt :: "('a \<Rightarrow> 'b option) \<Rightarrow> 'a list \<Rightarrow> 'b list option" where
  "map_opt f [] = Some []"
| "map_opt f (x # xs) = do { y \<leftarrow> f x; ys \<leftarrow> map_opt f xs; Some (y # ys) }"

fun filter_opt :: "('a \<Rightarrow> bool option) \<Rightarrow> 'a list \<Rightarrow> 'a list option" where
  "filter_opt p [] = Some []"
| "filter_opt p (x # xs) = do {
     b \<leftarrow> p x;
     ys \<leftarrow> filter_opt p xs;
     Some (if b then x # ys else ys)
   }"

subsection \<open>Letter case\<close>

text \<open>
  \<^verbatim>\<open>toLowerCase\<close> and \<^verbatim>\<open>toUpperCase\<close> on strings of code units below 256. The
  capital letters among these code units are \<^verbatim>\<open>A\<close> to \<^verbatim>\<open>Z\<close> and 0xC0 to 0xDE
  without the multiplication sign 0xD7; the small letter of each is 32 above it, and
  \<^verbatim>\<open>toLowerCase\<close> changes no other code unit. The small letters \<^verbatim>\<open>a\<close> to
  \<^verbatim>\<open>z\<close> and 0xE0 to 0xFE without the division sign 0xF7 have their capital 32 below.
  The capital of the sharp s (0xDF) is the two letters \<^verbatim>\<open>SS\<close>. The capitals of the
  micro sign (0xB5) and of the y with diaeresis (0xFF) are the code units 0x39C and
  0x178, which the strings of the model do not have: what stands for them is the
  parameter \<open>capitalBeyond\<close>, and nothing is proved about a string that holds it.
  \<^verbatim>\<open>toUpperCase\<close> changes no other code unit.
\<close>

definition lower_char :: "char \<Rightarrow> char" where
  "lower_char c =
     (if (65 \<le> (of_char c :: nat) \<and> (of_char c :: nat) \<le> 90)
         \<or> (192 \<le> (of_char c :: nat) \<and> (of_char c :: nat) \<le> 222 \<and> (of_char c :: nat) \<noteq> 215)
      then char_of (of_char c + 32 :: nat) else c)"

definition upper_units :: "env \<Rightarrow> char \<Rightarrow> string" where
  "upper_units E c =
     (if (97 \<le> (of_char c :: nat) \<and> (of_char c :: nat) \<le> 122)
         \<or> (224 \<le> (of_char c :: nat) \<and> (of_char c :: nat) \<le> 254 \<and> (of_char c :: nat) \<noteq> 247)
      then [char_of (of_char c - 32 :: nat)]
      else if (of_char c :: nat) = 223 then ''SS''
      else if (of_char c :: nat) = 181 \<or> (of_char c :: nat) = 255 then capitalBeyond E c
      else [c])"

definition toLowerCase :: "string \<Rightarrow> string" where
  "toLowerCase s = map lower_char s"

definition toUpperCase :: "env \<Rightarrow> string \<Rightarrow> string" where
  "toUpperCase E s = concat (map (upper_units E) s)"

section \<open>The handlers\<close>

text \<open>
  A handler answers with a status and either the object it gave to \<^verbatim>\<open>res.json\<close> or
  the text it gave to \<^verbatim>\<open>res.send\<close>. The upstream services are a function from the URL
  asked for to what \<^verbatim>\<open>response.data\<close> then holds, or \<open>None\<close> when the promise of
  \<^verbatim>\<open>axios.get\<close> is rejected (no connection, a time-out, a status outside 2xx). Beside
  its answer a handler returns the URLs it asked for, in order.

  The object is kept as the handler built it. A property whose value is \<^verbatim>\<open>undefined\<close>
  is still in it; \<^verbatim>\<open>res.json\<close> leaves such a property out when it writes the body.
\<close>

datatype content = Json jsval | Text string

record reply =
  status :: nat
  content :: content

type_synonym upstream = "string \<Rightarrow> jsval option"

text \<open>
  An upstream service that answers every request with one payload, and one that rejects
  every request.
\<close>

definition replies :: "jsval \<Rightarrow> upstream" where
  "replies data = (\<lambda>url. Some data)"

definition rejects :: upstream where
  "rejects = (\<lambda>url. None)"

text \<open>
  Every handler ends in the same way: \<^verbatim>\<open>res.json\<close> on the object built in the
  \<^verbatim>\<open>try\<close> block (status 200), or \<^verbatim>\<open>res.status(500).send\<close> of the message of its
  \<^verbatim>\<open>catch\<close> block when the request or the building threw.
\<close>

definition respond :: "string \<Rightarrow> jsval option \<Rightarrow> reply" where
  "respond message r =
     (case r of
        Some j \<Rightarrow> \<lparr>status = 200, content = Json j\<rparr>
      | None \<Rightarrow> \<lparr>status = 500, content = Text message\<rparr>)"

text \<open>A key of \<^verbatim>\<open>process.env\<close> inside a template literal.\<close>

definition env_text :: "string option \<Rightarrow> string" where
  "env_text k = (case k of None \<Rightarrow> ''undefined'' | Some s \<Rightarrow> s)"

definition not_available :: jsval where
  "not_available = JStr ''Not Available''"

definition square_km :: string where
  "square_km = '' km'' @ [CHR 0xB2]"

subsection \<open>\<^verbatim>\<open>GET /currentWeather/:city/:country\<close>\<close>

definition weatherSummary :: "env \<Rightarrow> string \<Rightarrow> string \<Rightarrow> jsval \<Rightarrow> jsval option" where
  "weatherSummary E city country weatherData = do {
     weather \<leftarrow> get weatherData ''weather'';
     weather0 \<leftarrow> index0 weather;
     description \<leftarrow> get weather0 ''description'';
     main \<leftarrow> get weatherData ''main'';
     temp \<leftarrow> get main ''temp'';
     temperature \<leftarrow> to_string E temp;
     feels \<leftarrow> get main ''feels_like'';
     feels_like \<leftarrow> to_string E feels;
     hum \<leftarrow> get main ''humidity'';
     humidity \<leftarrow> to_string E hum;
     wind \<leftarrow> get weatherData ''wind'';
     speed \<leftarrow> get wind ''speed'';
     wind_speed \<leftarrow> to_string E speed;
     sys \<leftarrow> get weatherData ''sys'';
     riseSeconds \<leftarrow> get sys ''sunrise'';
     sunrise \<leftarrow> to_number E riseSeconds;
     setSeconds \<leftarrow> get sys ''sunset'';
     sunset \<leftarrow> to_number E setSeconds;
     Some (JObj
       [(''location'', JStr (city @ '', '' @ country)),
        (''description'', description),
        (''temperature'', JStr (temperature @ [CHR 0xB0, CHR ''C''])),
        (''feels_like'', JStr (feels_like @ [CHR 0xB0, CHR ''C''])),
        (''humidity'', JStr (humidity @ ''%'')),
        (''wind_speed'', JStr (wind_speed @ '' m/s'')),
        (''sunrise'', JStr (localeTime E (js_mul sunrise (Fin 1000)))),
        (''sunset'', JStr (localeTime E (js_mul sunset (Fin 1000))))])
   }"

definition weather_url :: "env \<Rightarrow> string \<Rightarrow> string \<Rightarrow> string" where
  "weather_url E city country =
     ''https://api.openweathermap.org/data/2.5/weather?q='' @ city @ '','' @ country
     @ ''&units=metric&appid='' @ env_text (apiKey E)"

definition getCurrentWeather :: "env \<Rightarrow> upstream \<Rightarrow> string \<Rightarrow> string \<Rightarrow> reply \<times> string list" where
  "getCurrentWeather E axios_get city country =
     (let url = weather_url E city country
      in (respond ''Error retrieving current weather''
            (do { weatherData \<leftarrow> axios_get url; weatherSummary E city country weatherData }),
          [url]))"

subsection \<open>\<^verbatim>\<open>GET /forecast/:city/:country\<close>\<close>

definition forecastEntry :: "env \<Rightarrow> jsval \<Rightarrow> jsval option" where
  "forecastEntry E entry = do {
     dt \<leftarrow> get entry ''dt'';
     seconds \<leftarrow> to_number E dt;
     main \<leftarrow> get entry ''main'';
     temp \<leftarrow> get main ''temp'';
     temperature \<leftarrow> to_string E temp;
     feels \<leftarrow> get main ''feels_like'';
     feels_like \<leftarrow> to_string E feels;
     weather \<leftarrow> get entry ''weather'';
     weather0 \<leftarrow> index0 weather;
     condition \<leftarrow> get weather0 ''main'';
     description \<leftarrow> get weather0 ''description'';
     wind \<leftarrow> get entry ''wind'';
     speed \<leftarrow> get wind ''speed'';
     wind_speed \<leftarrow> to_string E speed;
     hum \<leftarrow> get main ''humidity'';
     humidity \<leftarrow> to_string E hum;
     Some (JObj
       [(''date'', JStr (localeDate E (js_mul seconds (Fin 1000)))),
        (''time'', JStr (localeTime E (js_mul seconds (Fin 1000)))),
        (''temperature'', JStr (temperature @ [CHR 0xB0, CHR ''C''])),
        (''feels_like'', JStr (feels_like @ [CHR 0xB0, CHR ''C''])),
        (''main'', condition),
        (''description'', description),
        (''wind_speed'', JStr (wind_speed @ '' m/s'')),
        (''humidity'', JStr (humidity @ ''%''))])
   }"

text \<open>
  \<^verbatim>\<open>response.data.list.map(...)\<close>: only an array has the method \<^verbatim>\<open>map\<close>.
\<close>

definition forecast :: "env \<Rightarrow> jsval \<Rightarrow> jsval list option" where
  "forecast E data = do {
     l \<leftarrow> get data ''list'';
     (case l of JArr entries \<Rightarrow> map_opt (forecastEntry E) entries | _ \<Rightarrow> None)
   }"

definition forecast_url :: "env \<Rightarrow> string \<Rightarrow> string \<Rightarrow> string" where
  "forecast_url E city country =
     ''https://api.openweathermap.org/data/2.5/forecast?q='' @ city @ '','' @ country
     @ ''&units=metric&appid='' @ env_text (apiKey E)"

definition getForecast :: "env \<Rightarrow> upstream \<Rightarrow> string \<Rightarrow> string \<Rightarrow> reply \<times> string list" where
  "getForecast E axios_get city country =
     (let url = forecast_url E city country
      in (respond ''Error retrieving 5-day forecast''
            (do {
               data \<leftarrow> axios_get url;
               entries \<leftarrow> forecast E data;
               Some (JObj [(''location'', JStr (city @ '', '' @ country)),
                           (''forecast'', JArr entries)])
             }),
          [url]))"

subsection \<open>\<^verbatim>\<open>GET /country/:countryName\<close>\<close>

definition countryInfo :: "env \<Rightarrow> jsval \<Rightarrow> jsval option" where
  "countryInfo E country = do {
     name \<leftarrow> get country ''name'';
     countryName \<leftarrow> get name ''common'';
     capital \<leftarrow> get country ''capital'';
     capitalCity \<leftarrow> (if truthy capital then index0 capital else Some not_available);
     population \<leftarrow> get country ''population'';
     populationText \<leftarrow> toLocaleString E population;
     area \<leftarrow> get country ''area'';
     areaText \<leftarrow> toLocaleString E area;
     languages \<leftarrow> get country ''languages'';
     officialLanguage \<leftarrow>
       (if truthy languages
        then do { vs \<leftarrow> object_values languages; s \<leftarrow> join E '', '' vs; Some (JStr s) }
        else Some not_available);
     currencies \<leftarrow> get country ''currencies'';
     currencyNames \<leftarrow>
       (if truthy currencies
        then do {
               vs \<leftarrow> object_values currencies;
               names \<leftarrow> map_opt (\<lambda>c. get c ''name'') vs;
               s \<leftarrow> join E '', '' names;
               Some (JStr s)
             }
        else Some not_available);
     region \<leftarrow> get country ''region'';
     subregion \<leftarrow> get country ''subregion'';
     flags \<leftarrow> get country ''flags'';
     svg \<leftarrow> get flags ''svg'';
     Some (JObj
       [(''countryName'', countryName),
        (''capitalCity'', capitalCity),
        (''population'', JStr populationText),
        (''area'', JStr (areaText @ square_km)),
        (''officialLanguage'', officialLanguage),
        (''currencies'', currencyNames),
        (''region'', region),
        (''subregion'', if truthy subregion then subregion else not_available),
        (''flag'', if truthy svg then svg else not_available)])
   }"

definition country_url :: "string \<Rightarrow> string" where
  "country_url countryName = ''https://restcountries.com/v3.1/name/'' @ countryName"

definition getCountryInfo :: "env \<Rightarrow> upstream \<Rightarrow> string \<Rightarrow> reply \<times> string list" where
  "getCountryInfo E axios_get countryName =
     (let url = country_url countryName
      in (respond (''Error retrieving information about '' @ countryName)
            (do { data \<leftarrow> axios_get url; country \<leftarrow> index0 data; countryInfo E country }),
          [url]))"

subsection \<open>\<^verbatim>\<open>GET /continent/:continentName\<close>\<close>

text \<open>
  The callback of \<^verbatim>\<open>filter\<close>:
  \<^verbatim>\<open>country.region?.toLowerCase() === continentName.toLowerCase()\<close>. The optional
  chaining gives \<^verbatim>\<open>undefined\<close> for a region that is \<^verbatim>\<open>undefined\<close> or \<^verbatim>\<open>null\<close>; a
  region that is a string is lowered; any other region has no method
  \<^verbatim>\<open>toLowerCase\<close>, and the call throws.
\<close>

definition region_matches :: "string \<Rightarrow> jsval \<Rightarrow> bool option" where
  "region_matches continentName country = do {
     region \<leftarrow> get country ''region'';
     lowered \<leftarrow>
       (case region of
          JUndefined \<Rightarrow> Some JUndefined
        | JNull \<Rightarrow> Some JUndefined
        | JStr s \<Rightarrow> Some (JStr (toLowerCase s))
        | _ \<Rightarrow> None);
     Some (lowered = JStr (toLowerCase continentName))
   }"

text \<open>The callback of \<^verbatim>\<open>map\<close>.\<close>

definition continentEntry :: "env \<Rightarrow> jsval \<Rightarrow> jsval option" where
  "continentEntry E country = do {
     name \<leftarrow> get country ''name'';
     countryName \<leftarrow> get name ''common'';
     capital \<leftarrow> get country ''capital'';
     capitalCity \<leftarrow> (if truthy capital then index0 capital else Some not_available);
     population \<leftarrow> get country ''population'';
     populationText \<leftarrow> toLocaleString E population;
     area \<leftarrow> get country ''area'';
     areaField \<leftarrow>
       (if truthy area
        then do { areaText \<leftarrow> toLocaleString E area; Some (JStr (areaText @ square_km)) }
        else Some not_available);
     languages \<leftarrow> get country ''languages'';
     languageNames \<leftarrow>
       (if truthy languages
        then do { vs \<leftarrow> object_values languages; s \<leftarrow> join E '', '' vs; Some (JStr s) }
        else Some not_available);
     flags \<leftarrow> get country ''flags'';
     svg \<leftarrow> get flags ''svg'';
     Some (JObj
       [(''countryName'', countryName),
        (''capitalCity'', capitalCity),
        (''population'', JStr populationText),
        (''area'', areaField),
        (''languages'', languageNames),
        (''flag'', if truthy svg then svg else not_available)])
   }"

text \<open>
  \<^verbatim>\<open>response.data.filter(...).map(...)\<close>: only an array has the method
  \<^verbatim>\<open>filter\<close>.
\<close>

definition countriesInContinent :: "env \<Rightarrow> string \<Rightarrow> jsval \<Rightarrow> jsval list option" where
  "countriesInContinent E continentName data =
     (case data of
        JArr countries \<Rightarrow> do {
          matching \<leftarrow> filter_opt (region_matches continentName) countries;
          map_opt (continentEntry E) matching
        }
      | _ \<Rightarrow> None)"

definition continentListing :: "env \<Rightarrow> string \<Rightarrow> jsval list \<Rightarrow> jsval" where
  "continentListing E continentName countries =
     JObj [(''continent'',
              JStr (toUpperCase E (take 1 continentName) @ toLowerCase (drop 1 continentName))),
           (''numberOfCountries'', JNum (Fin (of_nat (length countries)))),
           (''countries'', JArr countries)]"

definition catalog_url :: string where
  "catalog_url = ''https://restcountries.com/v3.1/all''"

definition getCountriesByContinent :: "env \<Rightarrow> upstream \<Rightarrow> string \<Rightarrow> reply \<times> string list" where
  "getCountriesByContinent E axios_get continentName =
     (let url = catalog_url
      in (respond (''Error retrieving list of countries in '' @ continentName)
            (do {
               data \<leftarrow> axios_get url;
               countries \<leftarrow> countriesInContinent E continentName data;
               Some (continentListing E continentName countries)
             }),
          [url]))"

subsection \<open>\<^verbatim>\<open>GET /convert/usd-to-eur\<close> and \<^verbatim>\<open>GET /convert/jpy-to-gbp\<close>\<close>

text \<open>
  The two handlers are the same text up to the two currency codes, which are the
  parameters \<open>from\<close> and \<open>to\<close> here. \<open>amount\<close> is \<^verbatim>\<open>req.query.amount\<close>,
  \<^verbatim>\<open>undefined\<close> when the query has no such parameter.
\<close>

definition conversionResult :: "env \<Rightarrow> string \<Rightarrow> string \<Rightarrow> jsval \<Rightarrow> jsval \<Rightarrow> jsval option" where
  "conversionResult E from to amount data = do {
     conversionRate \<leftarrow> get data (from @ ''_'' @ to);
     a \<leftarrow> to_number E amount;
     r \<leftarrow> to_number E conversionRate;
     original \<leftarrow> to_string E amount;
     Some (JObj
       [(''fromCurrency'', JStr from),
        (''toCurrency'', JStr to),
        (''originalAmount'', JStr (original @ '' '' @ from)),
        (''convertedAmount'', JStr (toFixed2 E (js_mul a r) @ '' '' @ to)),
        (''conversionRate'', conversionRate)])
   }"

definition rate_url :: "env \<Rightarrow> string \<Rightarrow> string \<Rightarrow> string" where
  "rate_url E from to =
     ''https://free.currconv.com/api/v7/convert?q='' @ from @ ''_'' @ to
     @ ''&compact=ultra&apiKey='' @ env_text (currencyConverterApiKey E)"

definition convert :: "env \<Rightarrow> upstream \<Rightarrow> string \<Rightarrow> string \<Rightarrow> jsval \<Rightarrow> reply \<times> string list" where
  "convert E axios_get from to amount =
     (if \<not> truthy amount
      then (\<lparr>status = 400, content = Text ''Please provide an amount to convert.''\<rparr>, [])
      else
        let url = rate_url E from to
        in (respond (''Error converting '' @ from @ '' to '' @ to)
              (do { data \<leftarrow> axios_get url; conversionResult E from to amount data }),
            [url]))"

definition convertUsdToEur :: "env \<Rightarrow> upstream \<Rightarrow> jsval \<Rightarrow> reply \<times> string list" where
  "convertUsdToEur E axios_get amount = convert E axios_get ''USD'' ''EUR'' amount"

definition convertJpyToGbp :: "env \<Rightarrow> upstream \<Rightarrow> jsval \<Rightarrow> reply \<times> string list" where
  "convertJpyToGbp E axios_get amount = convert E axios_get ''JPY'' ''GBP'' amount"

section \<open>Notions of the specification\<close>

text \<open>
  The letters among the code units below 256, by their numbers: the capital letters, and
  the small letters that have a capital among these code units (32 below them).
\<close>

definition capital_letter :: "char \<Rightarrow> bool" where
  "capital_letter c =
     ((65 \<le> (of_char c :: nat) \<and> (of_char c :: nat) < 91)
      \<or> (192 \<le> (of_char c :: nat) \<and> (of_char c :: nat) < 215)
      \<or> (216 \<le> (of_char c :: nat) \<and> (of_char c :: nat) < 223))"

definition small_letter :: "char \<Rightarrow> bool" where
  "small_letter c =
     ((97 \<le> (of_char c :: nat) \<and> (of_char c :: nat) < 123)
      \<or> (224 \<le> (of_char c :: nat) \<and> (of_char c :: nat) < 247)
      \<or> (248 \<le> (of_char c :: nat) \<and> (of_char c :: nat) < 255))"

text \<open>
  Two strings differ only in letter case when they have the same length and, position by
  position, the same code unit or the two cases of one letter.
\<close>

definition same_letter :: "char \<Rightarrow> char \<Rightarrow> bool" where
  "same_letter c d =
     (c = d
      \<or> (capital_letter c \<and> (of_char d :: nat) = of_char c + 32)
      \<or> (capital_letter d \<and> (of_char c :: nat) = of_char d + 32))"

definition differ_only_in_case :: "string \<Rightarrow> string \<Rightarrow> bool" where
  "differ_only_in_case a b = list_all2 same_letter a b"

text \<open>
  A label is the capitalized form of a name when it has the code units of the name, but
  for its first letter, which stands in upper case, and every capital letter after it,
  which stands in lower case. The notion is for a name whose first code unit has its
  capital among the code units below 256, or is no small letter at all: it does not
  begin with the sharp s, the micro sign or the y with diaeresis.
\<close>

definition capitalized_form :: "string \<Rightarrow> string \<Rightarrow> bool" where
  "capitalized_form label name =
     (case name of
        [] \<Rightarrow> label = []
      | n # ns \<Rightarrow>
          (case label of
             [] \<Rightarrow> False
           | l # ls \<Rightarrow>
               (if small_letter n then (of_char l :: nat) + 32 = of_char n else l = n)
               \<and> list_all2
                    (\<lambda>l n. if capital_letter n then (of_char l :: nat) = of_char n + 32 else l = n)
                    ls ns))"

definition initial_has_capital :: "string \<Rightarrow> bool" where
  "initial_has_capital name =
     (case name of
        [] \<Rightarrow> True
      | c # cs \<Rightarrow> (of_char c :: nat) \<noteq> 181 \<and> (of_char c :: nat) \<noteq> 223 \<and> (of_char c :: nat) \<noteq> 255)"

text \<open>
  A number rounded to two decimal places: the magnitude is rounded to the nearest
  hundredth, a half upwards, and printed as its whole part, a point and exactly two
  digits, after a minus sign when the number is negative.
\<close>

definition hundredths :: "rat \<Rightarrow> nat" where
  "hundredths p = nat \<lfloor>\<bar>p\<bar> * 100 + 1 / 2\<rfloor>"

definition two_decimals :: "rat \<Rightarrow> string" where
  "two_decimals p =
     (if p < 0 then ''-'' else '''')
     @ digits (hundredths p div 100)
     @ ''.''
     @ [digit_char (hundredths p div 10 mod 10), digit_char (hundredths p mod 10)]"

text \<open>
  An upstream request that brought no payload: the promise was rejected, or the body was
  \<^verbatim>\<open>null\<close>. An upstream request that brought no document: no payload, or a body
  that is not JSON, which \<^verbatim>\<open>axios\<close> hands over as a string.
\<close>

definition no_payload :: "jsval option \<Rightarrow> bool" where
  "no_payload r = (case r of None \<Rightarrow> True | Some v \<Rightarrow> v = JNull)"

definition no_document :: "jsval option \<Rightarrow> bool" where
  "no_document r =
     (case r of
        None \<Rightarrow> True
      | Some JNull \<Rightarrow> True
      | Some (JStr s) \<Rightarrow> True
      | Some v \<Rightarrow> False)"

section \<open>Sample data\<close>

text \<open>
  An environment to run the handlers in: it prints a whole number as its decimal digits,
  without grouping, joins with a comma, and prints a date as its milliseconds. The samples
  below hold whole numbers only.
\<close>

definition whole_number :: "number \<Rightarrow> string" where
  "whole_number n = (case n of Fin q \<Rightarrow> digits (nat \<lfloor>q\<rfloor>) | _ \<Rightarrow> ''Invalid Date'')"

definition sample_env :: env where
  "sample_env =
     \<lparr>apiKey = Some ''w-key'',
      currencyConverterApiKey = Some ''c-key'',
      shortestDecimal = (\<lambda>q. digits (nat \<lfloor>q\<rfloor>)),
      numberLocale = whole_number,
      listSeparator = '','',
      localeDate = whole_number,
      localeTime = whole_number,
      capitalBeyond = (\<lambda>c. [c])\<rparr>"

definition georgia :: jsval where
  "georgia = JObj
     [(''name'', JObj [(''common'', JStr ''Georgia'')]),
      (''capital'', JArr [JStr ''Tbilisi'']),
      (''population'', JNum (Fin 3714000)),
      (''area'', JNum (Fin 69700)),
      (''languages'', JObj [(''kat'', JStr ''Georgian'')]),
      (''currencies'', JObj [(''GEL'', JObj [(''name'', JStr ''lari''), (''symbol'', JStr ''l'')])]),
      (''region'', JStr ''Asia''),
      (''subregion'', JStr ''Western Asia''),
      (''flags'', JObj [(''svg'', JStr ''https://flagcdn.com/ge.svg'')])]"

definition south_georgia :: jsval where
  "south_georgia = JObj
     [(''name'', JObj [(''common'', JStr ''South Georgia'')]),
      (''population'', JNum (Fin 30)),
      (''area'', JNum (Fin 3903)),
      (''region'', JStr ''Antarctic''),
      (''flags'', JObj [(''png'', JStr ''https://flagcdn.com/w320/gs.png'')])]"

definition kenya :: jsval where
  "kenya = JObj
     [(''name'', JObj [(''common'', JStr ''Kenya'')]),
      (''capital'', JArr [JStr ''Nairobi'']),
      (''population'', JNum (Fin 53771300)),
      (''area'', JNum (Fin 580367)),
      (''languages'', JObj [(''eng'', JStr ''English''), (''swa'', JStr ''Swahili'')]),
      (''region'', JStr ''Africa''),
      (''flags'', JObj [(''svg'', JStr ''https://flagcdn.com/ke.svg'')])]"

definition stateless :: jsval where
  "stateless = JObj
     [(''name'', JObj [(''common'', JStr ''Nowhere'')]),
      (''region'', JNull)]"

definition atlantis :: jsval where
  "atlantis = JObj
     [(''name'', JObj [(''common'', JStr ''Atlantis'')]),
      (''capital'', JArr [JStr ''Poseidonis'']),
      (''population'', JNum (Fin 1000)),
      (''languages'', JObj [(''grc'', JStr ''Greek'')]),
      (''currencies'', JObj [(''ORI'', JObj [(''name'', JStr ''orichalcum'')])]),
      (''region'', JStr ''Oceania''),
      (''subregion'', JStr ''Polynesia''),
      (''flags'', JObj [(''svg'', JStr ''https://flags.example/at.svg'')])]"

definition tbilisi_weather :: jsval where
  "tbilisi_weather = JObj
     [(''weather'', JArr [JObj [(''main'', JStr ''Clouds''), (''description'', JStr ''few clouds'')]]),
      (''main'', JObj [(''temp'', JNum (Fin 21)), (''feels_like'', JNum (Fin 19)),
                       (''humidity'', JNum (Fin 60))]),
      (''wind'', JObj [(''speed'', JNum (Fin 4))]),
      (''sys'', JObj [(''sunrise'', JNum (Fin 1700000000)), (''sunset'', JNum (Fin 1700036000))])]"

definition forecast_entry_at :: "rat \<Rightarrow> rat \<Rightarrow> jsval" where
  "forecast_entry_at seconds degrees = JObj
     [(''dt'', JNum (Fin seconds)),
      (''main'', JObj [(''temp'', JNum (Fin degrees)), (''feels_like'', JNum (Fin degrees)),
                       (''humidity'', JNum (Fin 60))]),
      (''weather'', JArr [JObj [(''main'', JStr ''Clear''), (''description'', JStr ''clear sky'')]]),
      (''wind'', JObj [(''speed'', JNum (Fin 4))])]"

section \<open>Properties\<close>

subsection \<open>Doubles: how to compute with the model\<close>

text \<open>
  The recursion of \<open>bit_length\<close> is kept out of the simplifier; the binary exponent of
  a given number is found from the two powers of two that enclose it.
\<close>

declare bit_length.simps [simp del] digits.simps [simp del]

lemma bit_length_0 [simp]: "bit_length 0 = 0"
  by (simp add: bit_length.simps)

lemma bit_length_pos: "0 < n \<Longrightarrow> bit_length n = Suc (bit_length (n div 2))"
  by (subst bit_length.simps) simp

lemma bit_length_eq: "2 ^ k \<le> n \<Longrightarrow> n < 2 ^ Suc k \<Longrightarrow> bit_length n = Suc k"
proof (induction k arbitrary: n)
  case 0
  then have "n = 1" by simp
  then show ?case by (simp add: bit_length_pos)
next
  case (Suc k)
  then have "0 < n" by (metis gr0I not_less_zero le_zero_eq power_not_zero zero_neq_numeral)
  moreover have "2 ^ k \<le> n div 2" using Suc.prems(1) by simp
  moreover have "n div 2 < 2 ^ Suc k" using Suc.prems(2) by simp
  ultimately show ?case using Suc.IH [of "n div 2"] by (simp add: bit_length_pos)
qed

lemma pow2_pos [simp]: "0 < pow2 e"
  by (simp add: pow2_def)

lemma exponent_of_ge1:
  assumes "1 \<le> x" and "2 ^ k \<le> x" and "x < 2 ^ Suc k"
  shows "exponent_of x = int k"
proof -
  have lo: "(2::nat) ^ k \<le> nat \<lfloor>x\<rfloor>"
  proof -
    have "of_int (2 ^ k) \<le> x" using assms(2) by simp
    then have "(2::int) ^ k \<le> \<lfloor>x\<rfloor>" by (simp only: le_floor_iff)
    then show ?thesis by (simp add: le_nat_iff)
  qed
  have hi: "nat \<lfloor>x\<rfloor> < (2::nat) ^ Suc k"
  proof -
    have "x < of_int (2 ^ Suc k)" using assms(3) by simp
    then have "\<lfloor>x\<rfloor> < (2::int) ^ Suc k" by (simp only: floor_less_iff)
    moreover have "0 \<le> \<lfloor>x\<rfloor>" using assms(1) by simp
    ultimately show ?thesis by (simp add: nat_less_iff)
  qed
  have "bit_length (nat \<lfloor>x\<rfloor>) = Suc k" by (rule bit_length_eq [OF lo hi])
  with assms(1) show ?thesis by (simp add: exponent_of_def)
qed

lemma exponent_of_lt1:
  assumes "x < 1" and "1 / 2 ^ Suc k \<le> x" and "x < 1 / 2 ^ k"
  shows "exponent_of x = - int (Suc k)"
proof -
  have xpos: "0 < x"
  proof -
    have "(0::rat) < 1 / 2 ^ Suc k" by simp
    with assms(2) show ?thesis by linarith
  qed
  have up: "1 / x \<le> 2 ^ Suc k" using assms(2) xpos by (simp add: field_simps)
  have low: "2 ^ k < 1 / x" using assms(3) xpos by (simp add: field_simps)
  have c1: "\<lceil>1 / x\<rceil> \<le> 2 ^ Suc k"
  proof -
    have "1 / x \<le> of_int (2 ^ Suc k)" using up by simp
    then show ?thesis by (simp only: ceiling_le_iff)
  qed
  have c2: "2 ^ k < \<lceil>1 / x\<rceil>"
  proof -
    have "of_int (2 ^ k) < 1 / x" using low by simp
    then show ?thesis by (simp only: less_ceiling_iff)
  qed
  have lo: "(2::nat) ^ k \<le> nat (\<lceil>1 / x\<rceil> - 1)"
    using c2 by (simp add: le_nat_iff)
  have hi: "nat (\<lceil>1 / x\<rceil> - 1) < (2::nat) ^ Suc k"
  proof -
    have "0 \<le> \<lceil>1 / x\<rceil> - 1" using c2 by (smt (verit) zero_le_power)
    then show ?thesis using c1 by (simp add: nat_less_iff)
  qed
  have "bit_length (nat (\<lceil>1 / x\<rceil> - 1)) = Suc k" by (rule bit_length_eq [OF lo hi])
  with assms(1) show ?thesis by (simp add: exponent_of_def)
qed


lemma floor_rat_numeral [simp]: "\<lfloor>numeral a / numeral b :: rat\<rfloor> = numeral a div numeral b"
  by (metis floor_divide_of_int_eq of_int_numeral)

lemma round_half_even_of_int [simp]: "round_half_even (of_int m) = m"
  by (simp add: round_half_even_def)

lemma to_double_ge1:
  assumes "1 \<le> x" and "2 ^ k \<le> x" and "x < 2 ^ Suc k"
  shows "to_double x =
           (let ulp = pow2 (int k - 52); v = of_int (round_half_even (x / ulp)) * ulp
            in if pow2 1024 \<le> v then PosInf else Fin v)"
proof -
  have "exponent_of x = int k" by (rule exponent_of_ge1 [OF assms])
  moreover have "0 < x" using assms(1) by simp
  ultimately show ?thesis by (simp add: to_double_def Let_def)
qed

lemma to_double_lt1:
  assumes "0 < x" and "x < 1" and "1 / 2 ^ Suc k \<le> x" and "x < 1 / 2 ^ k"
  shows "to_double x =
           (let ulp = pow2 (max (- int (Suc k)) (- 1022) - 52);
                v = of_int (round_half_even (x / ulp)) * ulp
            in if pow2 1024 \<le> v then PosInf else Fin v)"
proof -
  have "exponent_of x = - int (Suc k)" by (rule exponent_of_lt1 [OF assms(2-4)])
  with assms(1) show ?thesis by (simp add: to_double_def Let_def)
qed

lemma bit_length_bounds: "0 < n \<Longrightarrow> 2 ^ (bit_length n - 1) \<le> n \<and> n < 2 ^ bit_length n"
proof (induction n rule: bit_length.induct)
  case (1 n)
  show ?case
  proof (cases "n div 2 = 0")
    case True
    with "1.prems" have "n = 1" by (simp add: div_eq_0_iff) 
    then show ?thesis by (simp add: bit_length_pos)
  next
    case False
    then have pos: "0 < n div 2" by simp
    with "1.IH" "1.prems" have ih: "2 ^ (bit_length (n div 2) - 1) \<le> n div 2" "n div 2 < 2 ^ bit_length (n div 2)"
      by simp_all
    have bl: "bit_length n = Suc (bit_length (n div 2))" using "1.prems" by (rule bit_length_pos)
    have "0 < bit_length (n div 2)" using pos by (simp add: bit_length_pos)
    then obtain m where m: "bit_length (n div 2) = Suc m" by (cases "bit_length (n div 2)") simp_all
    from ih m have "2 * 2 ^ m \<le> n" "n < 2 * (2 * 2 ^ m)" by simp_all
    with bl m show ?thesis by simp
  qed
qed

lemma to_double_of_nat:
  assumes "n < 2 ^ 53"
  shows "to_double (of_nat n) = Fin (of_nat n)"
proof (cases "n = 0")
  case True
  then show ?thesis by (simp add: to_double_def)
next
  case False
  then have pos: "0 < n" by simp
  define k where "k = bit_length n - 1"
  have "0 < bit_length n" using pos by (simp add: bit_length_pos)
  then have bl: "bit_length n = Suc k" by (simp add: k_def)
  from bit_length_bounds [OF pos] bl have lo: "2 ^ k \<le> n" and hi: "n < 2 ^ Suc k" by simp_all
  have k52: "k \<le> 52"
  proof (rule ccontr)
    assume "\<not> k \<le> 52"
    then have "(2::nat) ^ 53 \<le> 2 ^ k" by (intro power_increasing) simp_all
    with lo assms show False by simp
  qed
  have x1: "(1::rat) \<le> of_nat n" using pos by simp
  have xlo: "(2::rat) ^ k \<le> of_nat n"
  proof -
    have "(of_nat (2 ^ k) :: rat) \<le> of_nat n" using lo by (simp only: of_nat_le_iff)
    then show ?thesis by simp
  qed
  have xhi: "(of_nat n :: rat) < 2 ^ Suc k"
  proof -
    have "(of_nat n :: rat) < of_nat (2 ^ Suc k)" using hi by (simp only: of_nat_less_iff)
    then show ?thesis by simp
  qed
  have ulp: "pow2 (int k - 52) = 1 / 2 ^ (52 - k)"
    using k52 by (cases "k = 52") (auto simp: pow2_def nat_diff_distrib)
  have scaled: "(of_nat n :: rat) / pow2 (int k - 52) = of_int (int n * 2 ^ (52 - k))"
    by (simp add: ulp)
  have small: "(of_nat n :: rat) < pow2 1024"
  proof -
    have "(of_nat n :: rat) < of_nat (2 ^ 53)" using assms by (simp only: of_nat_less_iff)
    also have "\<dots> \<le> pow2 1024" by (simp add: pow2_def)
    finally show ?thesis .
  qed
  have "to_double (of_nat n) =
          (let ulp = pow2 (int k - 52); v = of_int (round_half_even (of_nat n / ulp)) * ulp
           in if pow2 1024 \<le> v then PosInf else Fin v)"
    by (rule to_double_ge1 [OF x1 xlo xhi])
  also have "\<dots> = Fin (of_nat n)"
    using small unfolding Let_def scaled round_half_even_of_int by (simp add: ulp)
  finally show ?thesis .
qed

lemma digit_char_values [simp]:
  "digit_char 0 = CHR ''0''" "digit_char (Suc 0) = CHR ''1''" "digit_char 2 = CHR ''2''"
  "digit_char 3 = CHR ''3''" "digit_char 4 = CHR ''4''" "digit_char 5 = CHR ''5''"
  "digit_char 6 = CHR ''6''" "digit_char 7 = CHR ''7''" "digit_char 8 = CHR ''8''"
  "digit_char 9 = CHR ''9''"
  by (simp_all add: digit_char_def char_of_def bit_iff_odd)

lemmas number_syntax =
  string_to_number_def trim_def is_space_def str_non_decimal_def str_decimal_def
  str_unsigned_decimal_def is_digit_def str_exponent_def decimal_value_def radix_digit_def
  pow10_def

subsection \<open>Callbacks, letter case and replies\<close>

lemma map_opt_Some_iff:
  "map_opt f xs = Some ys \<longleftrightarrow> length ys = length xs \<and> (\<forall>i<length xs. f (xs ! i) = Some (ys ! i))"
proof (induction xs arbitrary: ys)
  case Nil
  then show ?case by auto
next
  case (Cons x xs)
  show ?case
  proof (cases ys)
    case Nil
    then show ?thesis by (auto simp: bind_eq_Some_conv)
  next
    case (Cons y ys')
    then show ?thesis
      using Cons.IH[of ys'] by (auto simp: bind_eq_Some_conv nth_Cons split: nat.splits)
  qed
qed

lemma map_opt_None_iff: "map_opt f xs = None \<longleftrightarrow> (\<exists>x\<in>set xs. f x = None)"
  by (induction xs) (auto simp: Option.bind_eq_None_conv)

lemma capital_letter_iff:
  "capital_letter c \<longleftrightarrow>
     (65 \<le> (of_char c :: nat) \<and> (of_char c :: nat) \<le> 90)
     \<or> (192 \<le> (of_char c :: nat) \<and> (of_char c :: nat) \<le> 222 \<and> (of_char c :: nat) \<noteq> 215)"
  unfolding capital_letter_def by arith

lemma small_letter_iff:
  "small_letter c \<longleftrightarrow>
     (97 \<le> (of_char c :: nat) \<and> (of_char c :: nat) \<le> 122)
     \<or> (224 \<le> (of_char c :: nat) \<and> (of_char c :: nat) \<le> 254 \<and> (of_char c :: nat) \<noteq> 247)"
  unfolding small_letter_def by arith








lemma respond_200_iff:
  "respond message r = \<lparr>status = 200, content = Json j\<rparr> \<longleftrightarrow> r = Some j"
  by (cases r) (simp_all add: respond_def)

lemma filter_opt_skip:
  "p c = Some False \<Longrightarrow> filter_opt p (xs @ c # ys) = filter_opt p (xs @ ys)"
  by (induction xs) simp_all








lemma digits_lt10: "n < 10 \<Longrightarrow> digits n = [digit_char n]"
  by (subst digits.simps) simp

lemma digits_ge10: "10 \<le> n \<Longrightarrow> digits n = digits (n div 10) @ [digit_char (n mod 10)]"
  by (subst digits.simps) simp

lemma digits_not_Nil [simp]: "digits n \<noteq> []"
  by (subst digits.simps) simp

lemma digits_ge100:
  assumes "100 \<le> n"
  shows "digits n = digits (n div 100) @ [digit_char (n div 10 mod 10), digit_char (n mod 10)]"
proof -
  have "10 \<le> n" "10 \<le> n div 10" using assms by simp_all
  then have "digits n = (digits (n div 10 div 10) @ [digit_char (n div 10 mod 10)]) @ [digit_char (n mod 10)]"
    by (simp add: digits_ge10)
  then show ?thesis by (simp add: div_mult2_eq [symmetric])
qed

lemma point_before_last_two:
  "(let m = digits n;
        m = (if length m \<le> 2 then replicate (3 - length m) (CHR ''0'') @ m else m);
        k = length m
    in take (k - 2) m @ ''.'' @ drop (k - 2) m)
   = digits (n div 100) @ ''.'' @ [digit_char (n div 10 mod 10), digit_char (n mod 10)]"
proof -
  consider "n < 10" | "10 \<le> n" "n < 100" | "100 \<le> n" by linarith
  then show ?thesis
  proof cases
    case 1
    then show ?thesis by (simp add: digits_lt10 numeral_3_eq_3)
  next
    case 2
    then have "n div 10 < 10" by simp
    with 2 show ?thesis by (simp add: digits_ge10 digits_lt10)
  next
    case 3
    then show ?thesis by (simp add: digits_ge100 Let_def)
  qed
qed

lemma toFixed2_two_decimals:
  assumes "\<bar>p\<bar> < 10 ^ 21"
  shows "toFixed2 E (Fin p) = two_decimals p"
proof -
  have "\<not> 10 ^ 21 \<le> \<bar>p\<bar>" using assms by simp
  then show ?thesis
    using point_before_last_two [of "hundredths p"]
    by (simp add: toFixed2_def two_decimals_def hundredths_def Let_def)
qed

lemma double_100: "to_double 100 = Fin 100"
  using to_double_of_nat [of 100] by simp

lemma double_0_92: "to_double (92 / 100) = Fin (8286623314361713 / 9007199254740992)"
  by (subst to_double_lt1 [where k = 0]) (simp_all add: pow2_def Let_def round_half_even_def)

lemma product_100_0_92: "js_mul (Fin 100) (Fin (8286623314361713 / 9007199254740992)) = Fin 92"
  by (simp, subst to_double_ge1 [where k = 6]) (simp_all add: pow2_def Let_def round_half_even_def)

lemma parse_100: "string_to_number ''100'' = Fin 100"
  by (simp add: number_syntax double_100)

lemma parse_0_92: "string_to_number ''0.92'' = Fin (8286623314361713 / 9007199254740992)"
proof -
  have "string_to_number ''0.92'' = to_double (92 / 100)"
    by (simp add: number_syntax)
  then show ?thesis by (simp only: double_0_92)
qed

lemma parse_abc: "string_to_number ''abc'' = NaN"
  by (simp add: number_syntax)

lemma two_decimals_92: "two_decimals 92 = ''92.00''"
  by (simp add: two_decimals_def hundredths_def digits.simps)

lemma no_payload_iff: "no_payload r \<longleftrightarrow> r = None \<or> r = Some JNull"
  by (simp add: no_payload_def split: option.splits)

lemma no_document_iff:
  "no_document r \<longleftrightarrow> r = None \<or> r = Some JNull \<or> (\<exists>s. r = Some (JStr s))"
  by (simp add: no_document_def split: option.splits jsval.splits)

lemma respond_cases:
  "(\<exists>j. respond message r = \<lparr>status = 200, content = Json j\<rparr>)
   \<or> respond message r = \<lparr>status = 500, content = Text message\<rparr>"
  by (cases r) (simp_all add: respond_def)

lemma weather_no_document:
  "no_document (axios_get (weather_url E city country)) \<Longrightarrow>
   getCurrentWeather E axios_get city country =
     (\<lparr>status = 500, content = Text ''Error retrieving current weather''\<rparr>,
      [weather_url E city country])"
  by (auto simp: no_document_iff getCurrentWeather_def weatherSummary_def respond_def)

lemma forecast_no_document:
  "no_document (axios_get (forecast_url E city country)) \<Longrightarrow>
   getForecast E axios_get city country =
     (\<lparr>status = 500, content = Text ''Error retrieving 5-day forecast''\<rparr>,
      [forecast_url E city country])"
  by (auto simp: no_document_iff getForecast_def forecast_def respond_def)

lemma country_no_document:
  "no_document (axios_get (country_url countryName)) \<Longrightarrow>
   getCountryInfo E axios_get countryName =
     (\<lparr>status = 500, content = Text (''Error retrieving information about '' @ countryName)\<rparr>,
      [country_url countryName])"
  by (auto simp: no_document_iff getCountryInfo_def countryInfo_def respond_def
        split: list.splits)

lemma continent_no_document:
  "no_document (axios_get catalog_url) \<Longrightarrow>
   getCountriesByContinent E axios_get continentName =
     (\<lparr>status = 500, content = Text (''Error retrieving list of countries in '' @ continentName)\<rparr>,
      [catalog_url])"
  by (auto simp: no_document_iff getCountriesByContinent_def
        countriesInContinent_def respond_def)

lemma convert_no_payload:
  "truthy amount \<Longrightarrow> no_payload (axios_get (rate_url E from to)) \<Longrightarrow>
   convert E axios_get from to amount =
     (\<lparr>status = 500, content = Text (''Error converting '' @ from @ '' to '' @ to)\<rparr>,
      [rate_url E from to])"
  by (auto simp: no_payload_iff convert_def conversionResult_def respond_def)

lemma country_info_needs_area:
  "get country ''area'' = Some a \<Longrightarrow> a = JUndefined \<or> a = JNull \<Longrightarrow> countryInfo E country = None"
  by (auto simp: countryInfo_def Option.bind_eq_None_conv)

lemma to_double_numeral:
  "(numeral k :: nat) < 2 ^ 53 \<Longrightarrow> to_double (numeral k) = Fin (numeral k)"
  using to_double_of_nat [of "numeral k"] by simp

text \<open>The facts that unfold the sample data and the case of letters.\<close>

lemmas sample_data =
  sample_env_def whole_number_def georgia_def south_georgia_def kenya_def stateless_def
  atlantis_def tbilisi_weather_def forecast_entry_at_def not_available_def square_km_def
  number_to_string_def env_text_def
  weather_url_def forecast_url_def country_url_def catalog_url_def rate_url_def
  replies_def rejects_def

lemmas letter_case =
  toLowerCase_def toUpperCase_def lower_char_def upper_units_def capitalized_form_def
  initial_has_capital_def differ_only_in_case_def same_letter_def capital_letter_iff
  small_letter_iff char_of_def bit_iff_odd

subsection \<open>The claims\<close>

text \<open>
  C3. On both currency routes a query without \<^verbatim>\<open>amount\<close> is answered with status 400
  and the text \<^verbatim>\<open>Please provide an amount to convert.\<close>, and no request goes upstream.
\<close>

theorem missing_amount_is_400:
  "convertUsdToEur E axios_get JUndefined =
     (\<lparr>status = 400, content = Text ''Please provide an amount to convert.''\<rparr>, [])
   \<and> convertJpyToGbp E axios_get JUndefined =
     (\<lparr>status = 400, content = Text ''Please provide an amount to convert.''\<rparr>, [])"
  by (simp add: convertUsdToEur_def convertJpyToGbp_def convert_def)

text \<open>
  C7. When the upstream answer to a country lookup is a list of several matches, the
  reply is built from its first element alone, in the order upstream gave: the other
  matches do not occur in the result.
\<close>

theorem country_uses_first_match:
  assumes "axios_get (country_url countryName) = Some (JArr (country # others))"
  shows "getCountryInfo E axios_get countryName =
           (respond (''Error retrieving information about '' @ countryName) (countryInfo E country),
            [country_url countryName])"
  using assms by (simp add: getCountryInfo_def)

theorem country_uses_first_match_witness:
  "getCountryInfo sample_env (replies (JArr [georgia, south_georgia])) ''georgia'' =
     (\<lparr>status = 200, content = Json (JObj
        [(''countryName'', JStr ''Georgia''),
         (''capitalCity'', JStr ''Tbilisi''),
         (''population'', JStr ''3714000''),
         (''area'', JStr (''69700 km'' @ [CHR 0xB2])),
         (''officialLanguage'', JStr ''Georgian''),
         (''currencies'', JStr ''lari''),
         (''region'', JStr ''Asia''),
         (''subregion'', JStr ''Western Asia''),
         (''flag'', JStr ''https://flagcdn.com/ge.svg'')])\<rparr>,
      [''https://restcountries.com/v3.1/name/georgia''])"
  using country_uses_first_match
    [of "replies (JArr [georgia, south_georgia])" "''georgia''" georgia "[south_georgia]" sample_env]
  by (simp add: respond_def countryInfo_def sample_data digits.simps)

text \<open>
  C8. The forecast handler maps the upstream list entry by entry: when it answers 200 the
  \<^verbatim>\<open>forecast\<close> array has the length of the upstream list and its \<open>i\<close>-th element is
  the entry made from the \<open>i\<close>-th upstream entry; otherwise some upstream entry could not
  be mapped and the answer is the 500 text. Nothing is cut off or reordered.
\<close>

theorem forecast_maps_each_entry:
  assumes "axios_get (forecast_url E city country) = Some data"
    and "get data ''list'' = Some (JArr entries)"
  shows "(\<exists>out. fst (getForecast E axios_get city country) =
               \<lparr>status = 200, content = Json (JObj
                  [(''location'', JStr (city @ '', '' @ country)), (''forecast'', JArr out)])\<rparr>
            \<and> length out = length entries
            \<and> (\<forall>i<length entries. forecastEntry E (entries ! i) = Some (out ! i)))
       \<or> (fst (getForecast E axios_get city country) =
               \<lparr>status = 500, content = Text ''Error retrieving 5-day forecast''\<rparr>
            \<and> (\<exists>e\<in>set entries. forecastEntry E e = None))"
proof (cases "map_opt (forecastEntry E) entries")
  case None
  then have "\<exists>e\<in>set entries. forecastEntry E e = None"
    by (simp add: map_opt_None_iff)
  with None assms show ?thesis
    by (simp add: getForecast_def forecast_def respond_def)
next
  case (Some out)
  then have "length out = length entries
      \<and> (\<forall>i<length entries. forecastEntry E (entries ! i) = Some (out ! i))"
    by (simp add: map_opt_Some_iff)
  with Some assms show ?thesis
    by (simp add: getForecast_def forecast_def respond_def)
qed

theorem forecast_maps_each_entry_witness:
  "fst (getForecast sample_env
          (replies (JObj [(''list'', JArr [forecast_entry_at 1000 12, forecast_entry_at 11800 9])]))
          ''Tbilisi'' ''GE'') =
     \<lparr>status = 200, content = Json (JObj
        [(''location'', JStr ''Tbilisi, GE''),
         (''forecast'', JArr
            [JObj [(''date'', JStr ''1000000''), (''time'', JStr ''1000000''),
                   (''temperature'', JStr (''12'' @ [CHR 0xB0, CHR ''C''])),
                   (''feels_like'', JStr (''12'' @ [CHR 0xB0, CHR ''C''])),
                   (''main'', JStr ''Clear''), (''description'', JStr ''clear sky''),
                   (''wind_speed'', JStr ''4 m/s''), (''humidity'', JStr ''60%'')],
             JObj [(''date'', JStr ''11800000''), (''time'', JStr ''11800000''),
                   (''temperature'', JStr (''9'' @ [CHR 0xB0, CHR ''C''])),
                   (''feels_like'', JStr (''9'' @ [CHR 0xB0, CHR ''C''])),
                   (''main'', JStr ''Clear''), (''description'', JStr ''clear sky''),
                   (''wind_speed'', JStr ''4 m/s''), (''humidity'', JStr ''60%'')]])])\<rparr>"
  using forecast_maps_each_entry
    [of "replies (JObj [(''list'', JArr [forecast_entry_at 1000 12, forecast_entry_at 11800 9])])"
        sample_env "''Tbilisi''" "''GE''"
        "JObj [(''list'', JArr [forecast_entry_at 1000 12, forecast_entry_at 11800 9])]"
        "[forecast_entry_at 1000 12, forecast_entry_at 11800 9]"]
  by (simp add: getForecast_def forecast_def respond_def forecastEntry_def sample_data
        digits.simps to_double_numeral)

text \<open>
  C9. In every 200 answer of the current-weather handler the temperature and the
  feels-like temperature are the upstream numbers followed by the degree sign and
  \<^verbatim>\<open>C\<close>, the humidity is the upstream number followed by \<^verbatim>\<open>%\<close>, and the wind speed
  is the upstream number followed by \<^verbatim>\<open> m/s\<close>.
\<close>

theorem weather_fields_carry_units:
  assumes "axios_get (weather_url E city country) = Some data"
    and "fst (getCurrentWeather E axios_get city country) = \<lparr>status = 200, content = Json j\<rparr>"
    and "get data ''main'' = Some m"
    and "get m ''temp'' = Some (JNum t)"
    and "get m ''feels_like'' = Some (JNum f)"
    and "get m ''humidity'' = Some (JNum h)"
    and "get data ''wind'' = Some w"
    and "get w ''speed'' = Some (JNum s)"
  shows "get j ''temperature'' = Some (JStr (number_to_string E t @ [CHR 0xB0, CHR ''C'']))
       \<and> get j ''feels_like'' = Some (JStr (number_to_string E f @ [CHR 0xB0, CHR ''C'']))
       \<and> get j ''humidity'' = Some (JStr (number_to_string E h @ ''%''))
       \<and> get j ''wind_speed'' = Some (JStr (number_to_string E s @ '' m/s''))"
  using assms
  by (auto simp: getCurrentWeather_def Let_def respond_200_iff weatherSummary_def
        bind_eq_Some_conv)

theorem weather_fields_carry_units_witness:
  "fst (getCurrentWeather sample_env (replies tbilisi_weather) ''Tbilisi'' ''GE'') =
     \<lparr>status = 200, content = Json (JObj
       [(''location'', JStr ''Tbilisi, GE''),
        (''description'', JStr ''few clouds''),
        (''temperature'', JStr (''21'' @ [CHR 0xB0, CHR ''C''])),
        (''feels_like'', JStr (''19'' @ [CHR 0xB0, CHR ''C''])),
        (''humidity'', JStr ''60%''),
        (''wind_speed'', JStr ''4 m/s''),
        (''sunrise'', JStr ''1700000000000''),
        (''sunset'', JStr ''1700036000000'')])\<rparr>
   \<and> get (JObj
       [(''location'', JStr ''Tbilisi, GE''),
        (''description'', JStr ''few clouds''),
        (''temperature'', JStr (''21'' @ [CHR 0xB0, CHR ''C''])),
        (''feels_like'', JStr (''19'' @ [CHR 0xB0, CHR ''C''])),
        (''humidity'', JStr ''60%''),
        (''wind_speed'', JStr ''4 m/s''),
        (''sunrise'', JStr ''1700000000000''),
        (''sunset'', JStr ''1700036000000'')]) ''temperature''
     = Some (JStr (number_to_string sample_env (Fin 21) @ [CHR 0xB0, CHR ''C'']))"
  using weather_fields_carry_units
    [where axios_get = "replies tbilisi_weather" and city = "''Tbilisi''" and country = "''GE''"
       and E = sample_env and data = tbilisi_weather
       and j = "JObj
       [(''location'', JStr ''Tbilisi, GE''),
        (''description'', JStr ''few clouds''),
        (''temperature'', JStr (''21'' @ [CHR 0xB0, CHR ''C''])),
        (''feels_like'', JStr (''19'' @ [CHR 0xB0, CHR ''C''])),
        (''humidity'', JStr ''60%''),
        (''wind_speed'', JStr ''4 m/s''),
        (''sunrise'', JStr ''1700000000000''),
        (''sunset'', JStr ''1700036000000'')]"
       and m = "JObj [(''temp'', JNum (Fin 21)), (''feels_like'', JNum (Fin 19)),
                      (''humidity'', JNum (Fin 60))]"
       and t = "Fin 21" and f = "Fin 19" and h = "Fin 60"
       and w = "JObj [(''speed'', JNum (Fin 4))]" and s = "Fin 4"]
  by (simp add: getCurrentWeather_def weatherSummary_def respond_def sample_data
        digits.simps to_double_numeral)

text \<open>
  C10. A country of the upstream catalog whose \<^verbatim>\<open>region\<close> is missing or
  \<^verbatim>\<open>null\<close> never matches and never throws: for every continent name the filter
  answers \<open>False\<close> on it, and the handler answers the same with it in the catalog, at
  any place, as without it.
\<close>

theorem absent_region_is_skipped:
  assumes "get c ''region'' = Some r" and "r = JUndefined \<or> r = JNull"
  shows "region_matches continentName c = Some False
       \<and> countriesInContinent E continentName (JArr (before @ c # after))
           = countriesInContinent E continentName (JArr (before @ after))
       \<and> getCountriesByContinent E (replies (JArr (before @ c # after))) continentName
           = getCountriesByContinent E (replies (JArr (before @ after))) continentName"
proof -
  have no: "region_matches continentName c = Some False"
    using assms by (auto simp: region_matches_def)
  then show ?thesis
    by (simp add: countriesInContinent_def getCountriesByContinent_def replies_def
          filter_opt_skip)
qed

theorem absent_region_is_skipped_witness:
  "region_matches ''africa'' stateless = Some False
   \<and> getCountriesByContinent sample_env (replies (JArr [kenya, stateless, georgia])) ''africa''
       = getCountriesByContinent sample_env (replies (JArr [kenya, georgia])) ''africa''
   \<and> fst (getCountriesByContinent sample_env (replies (JArr [kenya, georgia])) ''africa'')
       = \<lparr>status = 200, content = Json (JObj
            [(''continent'', JStr ''Africa''),
             (''numberOfCountries'', JNum (Fin 1)),
             (''countries'', JArr [JObj
                [(''countryName'', JStr ''Kenya''),
                 (''capitalCity'', JStr ''Nairobi''),
                 (''population'', JStr ''53771300''),
                 (''area'', JStr (''580367 km'' @ [CHR 0xB2])),
                 (''languages'', JStr ''English, Swahili''),
                 (''flag'', JStr ''https://flagcdn.com/ke.svg'')]])])\<rparr>"
  using absent_region_is_skipped
    [where c = stateless and r = JNull and continentName = "''africa''" and E = sample_env
       and before = "[kenya]" and after = "[georgia]"]
  by (simp add: getCountriesByContinent_def countriesInContinent_def continentListing_def
        region_matches_def continentEntry_def respond_def sample_data digits.simps letter_case)





text \<open>
  C1. The claim: whichever of capital, area, languages, currencies, subregion and flag
  the first upstream match lacks, the country handler answers 200 with
  \<^verbatim>\<open>Not Available\<close> in its place. The handler does so for five of the six fields,
  but it calls \<^verbatim>\<open>country.area.toLocaleString()\<close> without the test the continent
  handler makes (\<^verbatim>\<open>country.area ? ... : 'Not Available'\<close>): for a country without
  \<^verbatim>\<open>area\<close> the call throws and the answer is the 500 text. Below, the country
  handler on a match that lacks only its area; the entry the continent handler makes of
  the same country; and the country handler on a match that has an area and lacks
  capital, languages, currencies, subregion and the flag in SVG.
\<close>

theorem country_without_area_fails:
  "getCountryInfo E (replies (JArr [atlantis])) ''Atlantis'' =
     (\<lparr>status = 500, content = Text ''Error retrieving information about Atlantis''\<rparr>,
      [''https://restcountries.com/v3.1/name/Atlantis''])
   \<and> continentEntry E atlantis = Some (JObj
        [(''countryName'', JStr ''Atlantis''),
         (''capitalCity'', JStr ''Poseidonis''),
         (''population'', JStr (numberLocale E (Fin 1000))),
         (''area'', JStr ''Not Available''),
         (''languages'', JStr ''Greek''),
         (''flag'', JStr ''https://flags.example/at.svg'')])
   \<and> getCountryInfo E (replies (JArr [south_georgia])) ''georgia'' =
     (\<lparr>status = 200, content = Json (JObj
        [(''countryName'', JStr ''South Georgia''),
         (''capitalCity'', JStr ''Not Available''),
         (''population'', JStr (numberLocale E (Fin 30))),
         (''area'', JStr (numberLocale E (Fin 3903) @ '' km'' @ [CHR 0xB2])),
         (''officialLanguage'', JStr ''Not Available''),
         (''currencies'', JStr ''Not Available''),
         (''region'', JStr ''Antarctic''),
         (''subregion'', JStr ''Not Available''),
         (''flag'', JStr ''Not Available'')])\<rparr>,
      [''https://restcountries.com/v3.1/name/georgia''])"
  by (simp add: getCountryInfo_def countryInfo_def continentEntry_def respond_def
        atlantis_def south_georgia_def not_available_def square_km_def country_url_def
        replies_def)

text \<open>
  C2, as stated, fails: on the currency routes a payload of an unexpected shape, here
  the empty object, is answered with status 200. The rate read from it is
  \<^verbatim>\<open>undefined\<close>, the product is \<^verbatim>\<open>NaN\<close>, and nothing throws.
\<close>

theorem upstream_shape_counterexample:
  "convertUsdToEur sample_env (replies (JObj [])) (JStr ''100'') =
     (\<lparr>status = 200, content = Json (JObj
         [(''fromCurrency'', JStr ''USD''),
          (''toCurrency'', JStr ''EUR''),
          (''originalAmount'', JStr ''100 USD''),
          (''convertedAmount'', JStr ''NaN EUR''),
          (''conversionRate'', JUndefined)])\<rparr>,
      [''https://free.currconv.com/api/v7/convert?q=USD_EUR&compact=ultra&apiKey=c-key''])"
  by (simp add: convertUsdToEur_def convert_def conversionResult_def respond_def
        toFixed2_def sample_data)

text \<open>
  C2, amended. On each of the six data routes a request that is rejected (no connection,
  a time-out, a status outside 2xx) or brings the body \<^verbatim>\<open>null\<close>, and on the two
  weather and the two country routes also one that brings a body that is not JSON, is
  answered with status 500 and exactly the message of the route, after the one request.
  Whatever the upstream service sends, the answer of a data route is either a JSON
  object with status 200 or that text with status 500 (on the currency routes: once the
  amount is present), never part of an object. A reply is one value, a status with either
  an object or a text, so no partial body can be expressed, as in the source, where
  \<^verbatim>\<open>res.json\<close> is the last step of the \<^verbatim>\<open>try\<close> block.
\<close>

theorem upstream_failure_is_500:
  "(no_document (axios_get (weather_url E city country)) \<longrightarrow>
      getCurrentWeather E axios_get city country =
        (\<lparr>status = 500, content = Text ''Error retrieving current weather''\<rparr>,
         [weather_url E city country]))
   \<and> (no_document (axios_get (forecast_url E city country)) \<longrightarrow>
      getForecast E axios_get city country =
        (\<lparr>status = 500, content = Text ''Error retrieving 5-day forecast''\<rparr>,
         [forecast_url E city country]))
   \<and> (no_document (axios_get (country_url countryName)) \<longrightarrow>
      getCountryInfo E axios_get countryName =
        (\<lparr>status = 500,
          content = Text (''Error retrieving information about '' @ countryName)\<rparr>,
         [country_url countryName]))
   \<and> (no_document (axios_get catalog_url) \<longrightarrow>
      getCountriesByContinent E axios_get continentName =
        (\<lparr>status = 500,
          content = Text (''Error retrieving list of countries in '' @ continentName)\<rparr>,
         [catalog_url]))
   \<and> (truthy amount \<and> no_payload (axios_get (rate_url E ''USD'' ''EUR'')) \<longrightarrow>
      convertUsdToEur E axios_get amount =
        (\<lparr>status = 500, content = Text ''Error converting USD to EUR''\<rparr>,
         [rate_url E ''USD'' ''EUR'']))
   \<and> (truthy amount \<and> no_payload (axios_get (rate_url E ''JPY'' ''GBP'')) \<longrightarrow>
      convertJpyToGbp E axios_get amount =
        (\<lparr>status = 500, content = Text ''Error converting JPY to GBP''\<rparr>,
         [rate_url E ''JPY'' ''GBP'']))
   \<and> ((\<exists>j. fst (getCurrentWeather E axios_get city country) = \<lparr>status = 200, content = Json j\<rparr>)
      \<or> fst (getCurrentWeather E axios_get city country) =
          \<lparr>status = 500, content = Text ''Error retrieving current weather''\<rparr>)
   \<and> ((\<exists>j. fst (getForecast E axios_get city country) = \<lparr>status = 200, content = Json j\<rparr>)
      \<or> fst (getForecast E axios_get city country) =
          \<lparr>status = 500, content = Text ''Error retrieving 5-day forecast''\<rparr>)
   \<and> ((\<exists>j. fst (getCountryInfo E axios_get countryName) = \<lparr>status = 200, content = Json j\<rparr>)
      \<or> fst (getCountryInfo E axios_get countryName) =
          \<lparr>status = 500,
           content = Text (''Error retrieving information about '' @ countryName)\<rparr>)
   \<and> ((\<exists>j. fst (getCountriesByContinent E axios_get continentName) =
             \<lparr>status = 200, content = Json j\<rparr>)
      \<or> fst (getCountriesByContinent E axios_get continentName) =
          \<lparr>status = 500,
           content = Text (''Error retrieving list of countries in '' @ continentName)\<rparr>)
   \<and> (truthy amount \<longrightarrow>
        (\<exists>j. fst (convertUsdToEur E axios_get amount) = \<lparr>status = 200, content = Json j\<rparr>)
        \<or> fst (convertUsdToEur E axios_get amount) =
            \<lparr>status = 500, content = Text ''Error converting USD to EUR''\<rparr>)
   \<and> (truthy amount \<longrightarrow>
        (\<exists>j. fst (convertJpyToGbp E axios_get amount) = \<lparr>status = 200, content = Json j\<rparr>)
        \<or> fst (convertJpyToGbp E axios_get amount) =
            \<lparr>status = 500, content = Text ''Error converting JPY to GBP''\<rparr>)"
proof (intro conjI impI)
  show "(\<exists>j. fst (getCurrentWeather E axios_get city country) = \<lparr>status = 200, content = Json j\<rparr>)
      \<or> fst (getCurrentWeather E axios_get city country) =
          \<lparr>status = 500, content = Text ''Error retrieving current weather''\<rparr>"
    by (simp add: getCurrentWeather_def Let_def respond_cases)
  show "(\<exists>j. fst (getForecast E axios_get city country) = \<lparr>status = 200, content = Json j\<rparr>)
      \<or> fst (getForecast E axios_get city country) =
          \<lparr>status = 500, content = Text ''Error retrieving 5-day forecast''\<rparr>"
    by (simp add: getForecast_def Let_def respond_cases)
  show "(\<exists>j. fst (getCountryInfo E axios_get countryName) = \<lparr>status = 200, content = Json j\<rparr>)
      \<or> fst (getCountryInfo E axios_get countryName) =
          \<lparr>status = 500,
           content = Text (''Error retrieving information about '' @ countryName)\<rparr>"
    by (simp add: getCountryInfo_def Let_def respond_cases)
  show "(\<exists>j. fst (getCountriesByContinent E axios_get continentName) =
             \<lparr>status = 200, content = Json j\<rparr>)
      \<or> fst (getCountriesByContinent E axios_get continentName) =
          \<lparr>status = 500,
           content = Text (''Error retrieving list of countries in '' @ continentName)\<rparr>"
    by (simp add: getCountriesByContinent_def Let_def respond_cases)
  show "(\<exists>j. fst (convertUsdToEur E axios_get amount) = \<lparr>status = 200, content = Json j\<rparr>)
        \<or> fst (convertUsdToEur E axios_get amount) =
            \<lparr>status = 500, content = Text ''Error converting USD to EUR''\<rparr>"
    if "truthy amount"
    using that respond_cases [of "''Error converting USD to EUR''"]
    by (simp add: convertUsdToEur_def convert_def Let_def)
  show "(\<exists>j. fst (convertJpyToGbp E axios_get amount) = \<lparr>status = 200, content = Json j\<rparr>)
        \<or> fst (convertJpyToGbp E axios_get amount) =
            \<lparr>status = 500, content = Text ''Error converting JPY to GBP''\<rparr>"
    if "truthy amount"
    using that respond_cases [of "''Error converting JPY to GBP''"]
    by (simp add: convertJpyToGbp_def convert_def Let_def)
qed (simp_all add: weather_no_document forecast_no_document country_no_document
       continent_no_document convert_no_payload convertUsdToEur_def convertJpyToGbp_def)

theorem upstream_failure_is_500_witness:
  "getCurrentWeather sample_env rejects ''Tbilisi'' ''GE'' =
     (\<lparr>status = 500, content = Text ''Error retrieving current weather''\<rparr>,
      [''https://api.openweathermap.org/data/2.5/weather?q=Tbilisi,GE&units=metric&appid=w-key''])
   \<and> getForecast sample_env rejects ''Tbilisi'' ''GE'' =
     (\<lparr>status = 500, content = Text ''Error retrieving 5-day forecast''\<rparr>,
      [''https://api.openweathermap.org/data/2.5/forecast?q=Tbilisi,GE&units=metric&appid=w-key''])
   \<and> getCountryInfo sample_env rejects ''georgia'' =
     (\<lparr>status = 500, content = Text ''Error retrieving information about georgia''\<rparr>,
      [''https://restcountries.com/v3.1/name/georgia''])
   \<and> getCountriesByContinent sample_env rejects ''africa'' =
     (\<lparr>status = 500, content = Text ''Error retrieving list of countries in africa''\<rparr>,
      [''https://restcountries.com/v3.1/all''])
   \<and> convertUsdToEur sample_env rejects (JStr ''100'') =
     (\<lparr>status = 500, content = Text ''Error converting USD to EUR''\<rparr>,
      [''https://free.currconv.com/api/v7/convert?q=USD_EUR&compact=ultra&apiKey=c-key''])
   \<and> convertJpyToGbp sample_env rejects (JStr ''100'') =
     (\<lparr>status = 500, content = Text ''Error converting JPY to GBP''\<rparr>,
      [''https://free.currconv.com/api/v7/convert?q=JPY_GBP&compact=ultra&apiKey=c-key''])"
  using upstream_failure_is_500
    [where axios_get = rejects and E = sample_env and city = "''Tbilisi''"
       and country = "''GE''" and countryName = "''georgia''" and continentName = "''africa''"
       and amount = "JStr ''100''"]
  by (simp add: no_document_def no_payload_def sample_data)

text \<open>
  C4, as stated, fails: a present amount that is no number, here \<^verbatim>\<open>abc\<close>, gives the
  converted amount \<^verbatim>\<open>NaN EUR\<close>, which has no decimals at all.
\<close>

theorem conversion_amount_counterexample:
  "convertUsdToEur sample_env
     (replies (JObj [(''USD_EUR'', JNum (string_to_number ''0.92''))])) (JStr ''abc'') =
     (\<lparr>status = 200, content = Json (JObj
         [(''fromCurrency'', JStr ''USD''),
          (''toCurrency'', JStr ''EUR''),
          (''originalAmount'', JStr ''abc USD''),
          (''convertedAmount'', JStr ''NaN EUR''),
          (''conversionRate'', JNum (string_to_number ''0.92''))])\<rparr>,
      [''https://free.currconv.com/api/v7/convert?q=USD_EUR&compact=ultra&apiKey=c-key''])"
  by (simp add: convertUsdToEur_def convert_def conversionResult_def respond_def parse_abc
        parse_0_92 toFixed2_def sample_data)

text \<open>
  C4, amended. When the present amount converts to a finite number \<open>a\<close>, the fetched
  rate is a finite number \<open>r\<close>, and their product as doubles is a finite \<open>p\<close> of
  magnitude below \<open>10^21\<close>, each currency handler answers 200 with the converted
  amount \<open>p\<close> rounded to two decimal places (the nearest hundredth, a half away from
  zero, printed with exactly two digits after the point) followed by the target currency,
  and with the rate as it was fetched. For the amount \<^verbatim>\<open>100\<close> and the rate 0.92 on
  USD to EUR the converted amount is \<^verbatim>\<open>92.00 EUR\<close> and the rate 0.92.
\<close>

theorem converted_amount_has_two_decimals:
  assumes "truthy amount"
    and "axios_get (rate_url E from to) = Some data"
    and "get data (from @ ''_'' @ to) = Some (JNum (Fin r))"
    and "to_number E amount = Some (Fin a)"
    and "to_string E amount = Some original"
    and "js_mul (Fin a) (Fin r) = Fin p"
    and "\<bar>p\<bar> < 10 ^ 21"
  shows "convert E axios_get from to amount =
           (\<lparr>status = 200, content = Json (JObj
               [(''fromCurrency'', JStr from),
                (''toCurrency'', JStr to),
                (''originalAmount'', JStr (original @ '' '' @ from)),
                (''convertedAmount'', JStr (two_decimals p @ '' '' @ to)),
                (''conversionRate'', JNum (Fin r))])\<rparr>,
            [rate_url E from to])
       \<and> convertUsdToEur E axios_get amount = convert E axios_get ''USD'' ''EUR'' amount
       \<and> convertJpyToGbp E axios_get amount = convert E axios_get ''JPY'' ''GBP'' amount"
  using assms
  by (simp add: convert_def conversionResult_def respond_def toFixed2_two_decimals
        convertUsdToEur_def convertJpyToGbp_def del: js_mul.simps)

theorem converted_amount_has_two_decimals_witness:
  "convertUsdToEur sample_env
     (replies (JObj [(''USD_EUR'', JNum (string_to_number ''0.92''))])) (JStr ''100'') =
     (\<lparr>status = 200, content = Json (JObj
         [(''fromCurrency'', JStr ''USD''),
          (''toCurrency'', JStr ''EUR''),
          (''originalAmount'', JStr ''100 USD''),
          (''convertedAmount'', JStr ''92.00 EUR''),
          (''conversionRate'', JNum (string_to_number ''0.92''))])\<rparr>,
      [''https://free.currconv.com/api/v7/convert?q=USD_EUR&compact=ultra&apiKey=c-key''])"
  using converted_amount_has_two_decimals
    [where amount = "JStr ''100''" and E = sample_env and ?from = "''USD''" and to = "''EUR''"
       and axios_get = "replies (JObj [(''USD_EUR'', JNum (string_to_number ''0.92''))])"
       and data = "JObj [(''USD_EUR'', JNum (string_to_number ''0.92''))]"
       and r = "8286623314361713 / 9007199254740992" and a = 100 and original = "''100''"
       and p = 92]
  by (simp add: parse_100 parse_0_92 product_100_0_92 two_decimals_92 sample_data
        del: js_mul.simps)

end
